theory Spec2Isabelle
  imports Main
begin

section \<open>JavaScript values used by dynamicVat.js\<close>

text \<open>
  The bundle handed to \<open>createVatDynamically\<close> is an arbitrary JavaScript value; the
  code inspects it only through \<open>typeof\<close>.  Functions are opaque (a number names
  one), objects are property lists.
\<close>

datatype jsval =
    JUndefined
  | JNull
  | JBoolean bool
  | JNumber int
  | JBigInt int
  | JString string
  | JSymbol string
  | JFunction nat
  | JObject "(string \<times> jsval) list"

text \<open>The \<open>typeof\<close> operator of ECMAScript; \<open>typeof null\<close> is \<open>"object"\<close>.\<close>

fun typeof :: "jsval \<Rightarrow> string" where
  "typeof JUndefined = ''undefined''"
| "typeof JNull = ''object''"
| "typeof (JBoolean b) = ''boolean''"
| "typeof (JNumber n) = ''number''"
| "typeof (JBigInt n) = ''bigint''"
| "typeof (JString s) = ''string''"
| "typeof (JSymbol s) = ''symbol''"
| "typeof (JFunction f) = ''function''"
| "typeof (JObject ps) = ''object''"

text \<open>
  Property read \<open>ns.p\<close> on a module namespace object (a property list): the value of
  the first entry named \<open>p\<close>, \<open>undefined\<close> when there is none.
\<close>

definition get_prop :: "(string \<times> jsval) list \<Rightarrow> string \<Rightarrow> jsval" where
  "get_prop ns p = (case map_of ns p of None \<Rightarrow> JUndefined | Some v \<Rightarrow> v)"

text \<open>
  Thrown values, rejections and the argument of the termination callback are
  \<open>Error\<close> objects, kept as their \<open>name\<close> and \<open>message\<close>.  \<open>Error(msg)\<close> builds one
  named \<open>"Error"\<close>.
\<close>

datatype js_error = JsError (err_name: string) (err_message: string)

definition Error :: "string \<Rightarrow> js_error" where
  "Error msg = JsError ''Error'' msg"

text \<open>
  The template literal \<open>`${error}`\<close> applies \<open>Error.prototype.toString\<close>: the name
  alone when the message is empty, the message alone when the name is empty, and
  otherwise the name, a colon, a space, and the message.
\<close>

definition error_toString :: "js_error \<Rightarrow> string" where
  "error_toString e =
     (if err_name e = [] then err_message e
      else if err_message e = [] then err_name e
      else err_name e @ '': '' @ err_message e)"

section \<open>JSON.stringify\<close>

text \<open>
  The message bodies are built by \<open>JSON.stringify\<close> from arrays, objects, strings and
  one number.  Strings are quoted; the quotation mark, the reverse solidus and the
  control characters below U+0020 are escaped, everything else is copied.
\<close>

datatype json =
    JStr string
  | JNum int
  | JArr "json list"
  | JObj "(string \<times> json) list"

definition hex_digit :: "nat \<Rightarrow> char" where
  "hex_digit n = (''0123456789abcdef'') ! (n mod 16)"

definition escape_char :: "char \<Rightarrow> string" where
  "escape_char c =
     (if c = CHR 0x22 then [CHR 0x5C, CHR 0x22]
      else if c = CHR 0x5C then [CHR 0x5C, CHR 0x5C]
      else if c = CHR 0x08 then [CHR 0x5C, CHR ''b'']
      else if c = CHR 0x0C then [CHR 0x5C, CHR ''f'']
      else if c = CHR 0x0A then [CHR 0x5C, CHR ''n'']
      else if c = CHR 0x0D then [CHR 0x5C, CHR ''r'']
      else if c = CHR 0x09 then [CHR 0x5C, CHR ''t'']
      else if of_char c < (32::nat) then
        [CHR 0x5C, CHR ''u'', CHR ''0'', CHR ''0'',
         hex_digit (of_char c div 16), hex_digit (of_char c)]
      else [c])"

definition quote_string :: "string \<Rightarrow> string" where
  "quote_string s = [CHR 0x22] @ concat (map escape_char s) @ [CHR 0x22]"

fun digits_of :: "nat \<Rightarrow> string" where
  "digits_of n =
     (if n < 10 then [hex_digit n] else digits_of (n div 10) @ [hex_digit (n mod 10)])"

definition number_toString :: "int \<Rightarrow> string" where
  "number_toString i = (if i < 0 then ''-'' @ digits_of (nat (- i)) else digits_of (nat i))"

fun join_with :: "string \<Rightarrow> string list \<Rightarrow> string" where
  "join_with sep [] = []"
| "join_with sep [x] = x"
| "join_with sep (x # y # ys) = x @ sep @ join_with sep (y # ys)"

fun JSON_stringify :: "json \<Rightarrow> string" where
  "JSON_stringify (JStr s) = quote_string s"
| "JSON_stringify (JNum i) = number_toString i"
| "JSON_stringify (JArr xs) = ''['' @ join_with '','' (map JSON_stringify xs) @ '']''"
| "JSON_stringify (JObj ps) =
     ''{'' @ join_with '',''
        (map (\<lambda>(k, v). quote_string k @ '':'' @ JSON_stringify v) ps) @ ''}''"

declare digits_of.simps [simp del]
declare JSON_stringify.simps [simp del]

section \<open>Slots, capability data and the kernel's interface\<close>

type_synonym vatID = string
type_synonym kernel_slot = string

text \<open>
  Modelled from the spec: \<open>makeVatSlot\<close> of \<open>../parseVatSlots\<close> is not among the
  sources.  A vat slot is kept as the three arguments it is made from: the kind of
  reference, whether the vat allocated it, and the vat-local index; the root object
  of every vat is the object the vat allocated at index 0.
\<close>

record vat_slot =
  slot_type :: string
  allocatedByVat :: bool
  slot_id :: nat

definition makeVatSlot :: "string \<Rightarrow> bool \<Rightarrow> nat \<Rightarrow> vat_slot" where
  "makeVatSlot t a i = \<lparr>slot_type = t, allocatedByVat = a, slot_id = i\<rparr>"

definition makeVatRootObjectSlot :: vat_slot where
  "makeVatRootObjectSlot = makeVatSlot ''object'' True 0"

text \<open>The message envelope: a serialized body and the kernel slots it refers to.\<close>

record capdata =
  body :: string
  slots :: "kernel_slot list"

record meter_options =
  refillEachCrank :: bool
  refillIfExhausted :: bool

text \<open>
  The options of \<open>importBundle\<close>.  \<open>inescapableTransforms\<close> and
  \<open>inescapableGlobalLexicals\<close> are both built from \<open>meterRecord.getMeter\<close> (and the
  fixed \<open>transformMetering\<close>), so the meter record stands for the two of them.
\<close>

record 'm import_options =
  filePrefix :: vatID
  endowments :: jsval
  getMeter :: 'm

text \<open>
  The values that travel down the promise chain: plain JavaScript values (the
  \<open>buildRootObject\<close> function, \<open>undefined\<close>) and the argument records made by
  \<open>makeSuccessResponse\<close> and \<open>makeErrorResponse\<close>.
\<close>

datatype chain_value = V_js jsval | V_capdata capdata

text \<open>
  Every call this module makes to its collaborators, with the arguments passed and
  the result obtained (\<open>Inl\<close> is a thrown error, for \<open>importBundle\<close> also a rejected
  promise).  The \<open>setup\<close> closure given to \<open>addVatManager\<close> is determined by the
  value it closes over, \<open>buildRootObject\<close>; the termination callback and the empty
  options object are the same in every call and are left out.
\<close>

datatype 'm event =
    AllocateUnusedVatID vatID
  | MakeGetMeter meter_options 'm
  | VatNameToID string "js_error + vatID"
  | MakeVatEndowments vatID "js_error + jsval"
  | ImportBundle jsval "'m import_options" "js_error + (string \<times> jsval) list"
  | AddVatManager vatID string chain_value 'm "js_error + unit"
  | AddExport vatID vat_slot "js_error + kernel_slot"
  | QueueToExport vatID vat_slot string chain_value string "js_error + unit"
  | ConsoleError string js_error

text \<open>
  The collaborators received in \<open>stuff\<close>, and \<open>importBundle\<close>, over a kernel state
  \<open>'k\<close> that is left open.  The identifier allocator and the meter factory are pure
  bookkeeping and always return; the others may throw.  \<open>dynamicVatPowers\<close> and
  \<open>transformMetering\<close> are only captured in closures handed on and are never called
  by this module.
\<close>

record ('k, 'm) stuff =
  allocateUnusedVatID :: "'k \<Rightarrow> vatID \<times> 'k"
  vatNameToID :: "string \<Rightarrow> 'k \<Rightarrow> (js_error + vatID) \<times> 'k"
  makeVatEndowments :: "vatID \<Rightarrow> 'k \<Rightarrow> (js_error + jsval) \<times> 'k"
  makeGetMeter :: "meter_options \<Rightarrow> 'k \<Rightarrow> 'm \<times> 'k"
  importBundle ::
    "jsval \<Rightarrow> 'm import_options \<Rightarrow> 'k \<Rightarrow> (js_error + (string \<times> jsval) list) \<times> 'k"
  addVatManager ::
    "vatID \<Rightarrow> string \<Rightarrow> chain_value \<Rightarrow> 'm \<Rightarrow> 'k \<Rightarrow> (js_error + unit) \<times> 'k"
  addExport :: "vatID \<Rightarrow> vat_slot \<Rightarrow> 'k \<Rightarrow> (js_error + kernel_slot) \<times> 'k"
  queueToExport ::
    "vatID \<Rightarrow> vat_slot \<Rightarrow> string \<Rightarrow> chain_value \<Rightarrow> string \<Rightarrow> 'k
       \<Rightarrow> (js_error + unit) \<times> 'k"

section \<open>The promise chain\<close>

text \<open>
  A promise is settled with a value or with an error.  A link of the chain is one
  \<open>.then(onFulfilled, onRejected)\<close>; \<open>.then(f)\<close> has no second handler and
  \<open>.catch(g)\<close> no first.  A link without the handler for the settlement it meets
  passes the settlement on.
\<close>

datatype settlement = Fulfilled chain_value | Rejected js_error

datatype on_fulfilled =
    MakeBuildRootObject
  | ResumeBuildRootObject "(string \<times> jsval) list"
  | MakeVatManager
  | MakeSuccessResponse
  | SendResponse

datatype on_rejected = MakeErrorResponse | LogError

type_synonym link = "on_fulfilled option \<times> on_rejected option"

text \<open>
  What running a handler yields: it returns, it throws, or (the \<open>async\<close> function at
  its \<open>await\<close>) it suspends and the rest of its body runs in a later job.
\<close>

datatype outcome = Return chain_value | Throw js_error | Await on_fulfilled

text \<open>
  The closure of one call of \<open>createVatDynamically\<close>: its local variables, the state
  of its promise chain (the settlement of the promise at the head and the links
  still to run), the kernel state, and the calls made so far on behalf of this vat.
\<close>

record ('k, 'm) creation =
  vatID :: vatID
  meterRecord :: 'm
  vatSourceBundle :: jsval
  terminated :: bool
  settled :: settlement
  pending :: "link list"
  kernel :: 'k
  calls :: "'m event list"

text \<open>Calling a collaborator: run it on the kernel state and record the call.\<close>

definition call ::
  "('r \<Rightarrow> 'm event) \<Rightarrow> ('k \<Rightarrow> 'r \<times> 'k) \<Rightarrow> ('k, 'm) creation \<Rightarrow> 'r \<times> ('k, 'm) creation"
where
  "call ev f s =
     (let (r, k') = f (kernel s)
      in (r, s\<lparr>kernel := k', calls := calls s @ [ev r]\<rparr>))"

section \<open>The functions of createVatDynamically\<close>

text \<open>
  \<open>notifyTermination(error)\<close>.  The argument is an \<open>Error\<close> object (truthy) or
  \<open>undefined\<close> (\<open>None\<close>).  The flag is set before anything is called, so a throw
  of \<open>vatNameToID\<close> or \<open>queueToExport\<close> leaves it set.
\<close>

definition notifyTermination ::
  "('k, 'm) stuff \<Rightarrow> js_error option \<Rightarrow> ('k, 'm) creation
     \<Rightarrow> (js_error + unit) \<times> ('k, 'm) creation"
where
  "notifyTermination st error s =
     (if terminated s then (Inr (), s)
      else
        let s1 = s\<lparr>terminated := True\<rparr> in
        case call (VatNameToID ''vatAdmin'') (vatNameToID st ''vatAdmin'') s1 of
          (Inl e, s2) \<Rightarrow> (Inl e, s2)
        | (Inr vatAdminVatId, s2) \<Rightarrow>
            let vatAdminRootObjectSlot = makeVatRootObjectSlot;
                args = \<lparr>body = JSON_stringify (JArr
                          [JStr (vatID s),
                           (case error of
                              Some e \<Rightarrow> JObj [(''@qclass'', JStr ''error''),
                                               (''name'', JStr (err_name e)),
                                               (''message'', JStr (err_message e))]
                            | None \<Rightarrow> JObj [(''@qclass'', JStr ''undefined'')])]),
                        slots = []\<rparr>
            in call (QueueToExport vatAdminVatId vatAdminRootObjectSlot ''vatTerminated''
                       (V_capdata args) ''logFailure'')
                    (queueToExport st vatAdminVatId vatAdminRootObjectSlot ''vatTerminated''
                       (V_capdata args) ''logFailure'')
                    s2)"

text \<open>
  \<open>makeBuildRootObject\<close> up to its \<open>await\<close>.  A synchronous throw of \<open>importBundle\<close> and
  a rejection of the promise it returns both reject the promise of the \<open>async\<close>
  function; when the import succeeds the function resumes with the namespace.
\<close>

definition makeBuildRootObject ::
  "('k, 'm) stuff \<Rightarrow> ('k, 'm) creation \<Rightarrow> outcome \<times> ('k, 'm) creation"
where
  "makeBuildRootObject st s =
     (if typeof (vatSourceBundle s) \<noteq> ''object'' then
        (Throw (Error ''createVatDynamically() requires bundle, not a plain string''), s)
      else
        case call (MakeVatEndowments (vatID s)) (makeVatEndowments st (vatID s)) s of
          (Inl e, s1) \<Rightarrow> (Throw e, s1)
        | (Inr en, s1) \<Rightarrow>
            let opts = \<lparr>filePrefix = vatID s, endowments = en, getMeter = meterRecord s\<rparr> in
            (case call (ImportBundle (vatSourceBundle s) opts)
                       (importBundle st (vatSourceBundle s) opts) s1 of
               (Inl e, s2) \<Rightarrow> (Throw e, s2)
             | (Inr vatNS, s2) \<Rightarrow> (Await (ResumeBuildRootObject vatNS), s2)))"

text \<open>The rest of \<open>makeBuildRootObject\<close>, after the \<open>await\<close>.\<close>

definition resumeBuildRootObject ::
  "(string \<times> jsval) list \<Rightarrow> ('k, 'm) creation \<Rightarrow> outcome \<times> ('k, 'm) creation"
where
  "resumeBuildRootObject vatNS s =
     (if typeof (get_prop vatNS ''buildRootObject'') \<noteq> ''function'' then
        (Throw (Error ''vat source bundle does not export buildRootObject function''), s)
      else (Return (V_js (get_prop vatNS ''buildRootObject'')), s))"

definition makeVatManager ::
  "('k, 'm) stuff \<Rightarrow> chain_value \<Rightarrow> ('k, 'm) creation \<Rightarrow> outcome \<times> ('k, 'm) creation"
where
  "makeVatManager st buildRootObject s =
     (case call (AddVatManager (vatID s) (''dynamicVat'' @ vatID s) buildRootObject
                   (meterRecord s))
                (addVatManager st (vatID s) (''dynamicVat'' @ vatID s) buildRootObject
                   (meterRecord s)) s of
        (Inl e, s1) \<Rightarrow> (Throw e, s1)
      | (Inr u, s1) \<Rightarrow> (Return (V_js JUndefined), s1))"

definition makeSuccessResponse ::
  "('k, 'm) stuff \<Rightarrow> ('k, 'm) creation \<Rightarrow> outcome \<times> ('k, 'm) creation"
where
  "makeSuccessResponse st s =
     (case call (AddExport (vatID s) makeVatRootObjectSlot)
                (addExport st (vatID s) makeVatRootObjectSlot) s of
        (Inl e, s1) \<Rightarrow> (Throw e, s1)
      | (Inr kernelRootObjSlot, s1) \<Rightarrow>
          (Return (V_capdata
             \<lparr>body = JSON_stringify (JArr
                        [JStr (vatID s),
                         JObj [(''rootObject'',
                                JObj [(''@qclass'', JStr ''slot''), (''index'', JNum 0)])]]),
              slots = [kernelRootObjSlot]\<rparr>), s1))"

definition makeErrorResponse ::
  "js_error \<Rightarrow> ('k, 'm) creation \<Rightarrow> outcome \<times> ('k, 'm) creation"
where
  "makeErrorResponse error s =
     (Return (V_capdata
        \<lparr>body = JSON_stringify (JArr
                   [JStr (vatID s), JObj [(''error'', JStr (error_toString error))]]),
         slots = []\<rparr>), s)"

definition sendResponse ::
  "('k, 'm) stuff \<Rightarrow> chain_value \<Rightarrow> ('k, 'm) creation \<Rightarrow> outcome \<times> ('k, 'm) creation"
where
  "sendResponse st args s =
     (case call (VatNameToID ''vatAdmin'') (vatNameToID st ''vatAdmin'') s of
        (Inl e, s1) \<Rightarrow> (Throw e, s1)
      | (Inr vatAdminVatId, s1) \<Rightarrow>
          let vatAdminRootObjectSlot = makeVatRootObjectSlot in
          (case call (QueueToExport vatAdminVatId vatAdminRootObjectSlot ''newVatCallback''
                        args ''logFailure'')
                     (queueToExport st vatAdminVatId vatAdminRootObjectSlot ''newVatCallback''
                        args ''logFailure'') s1 of
             (Inl e, s2) \<Rightarrow> (Throw e, s2)
           | (Inr u, s2) \<Rightarrow> (Return (V_js JUndefined), s2)))"

text \<open>The handler of \<open>.catch\<close>: \<open>console.error(`error in createVatDynamically`, err)\<close>.\<close>

definition logError :: "js_error \<Rightarrow> ('k, 'm) creation \<Rightarrow> outcome \<times> ('k, 'm) creation" where
  "logError err s =
     (Return (V_js JUndefined),
      s\<lparr>calls := calls s @ [ConsoleError ''error in createVatDynamically'' err]\<rparr>)"

text \<open>
  The chain built at the end of \<open>createVatDynamically\<close>, on \<open>Promise.resolve()\<close>:
  \<open>.then(makeBuildRootObject).then(makeVatManager)
   .then(makeSuccessResponse, makeErrorResponse).then(sendResponse).catch(...)\<close>.
\<close>

definition chain :: "link list" where
  "chain =
     [(Some MakeBuildRootObject, None),
      (Some MakeVatManager, None),
      (Some MakeSuccessResponse, Some MakeErrorResponse),
      (Some SendResponse, None),
      (None, Some LogError)]"

text \<open>
  The synchronous part of \<open>createVatDynamically\<close>: it allocates the identifier and
  the meter, builds the chain (no link of which has run), and returns the identifier.
\<close>

definition createVatDynamically ::
  "('k, 'm) stuff \<Rightarrow> jsval \<Rightarrow> 'k \<Rightarrow> vatID \<times> ('k, 'm) creation"
where
  "createVatDynamically st bundle k =
     (let (vid, k1) = allocateUnusedVatID st k;
          opts = \<lparr>refillEachCrank = False, refillIfExhausted = False\<rparr>;
          (m, k2) = makeGetMeter st opts k1
      in (vid,
          \<lparr>vatID = vid, meterRecord = m, vatSourceBundle = bundle, terminated = False,
           settled = Fulfilled (V_js JUndefined), pending = chain, kernel = k2,
           calls = [AllocateUnusedVatID vid, MakeGetMeter opts m]\<rparr>))"

section \<open>Running the jobs\<close>

fun run_fulfilled ::
  "('k, 'm) stuff \<Rightarrow> on_fulfilled \<Rightarrow> chain_value \<Rightarrow> ('k, 'm) creation
     \<Rightarrow> outcome \<times> ('k, 'm) creation"
where
  "run_fulfilled st MakeBuildRootObject v s = makeBuildRootObject st s"
| "run_fulfilled st (ResumeBuildRootObject vatNS) v s = resumeBuildRootObject vatNS s"
| "run_fulfilled st MakeVatManager v s = makeVatManager st v s"
| "run_fulfilled st MakeSuccessResponse v s = makeSuccessResponse st s"
| "run_fulfilled st SendResponse v s = sendResponse st v s"

fun run_rejected ::
  "on_rejected \<Rightarrow> js_error \<Rightarrow> ('k, 'm) creation \<Rightarrow> outcome \<times> ('k, 'm) creation"
where
  "run_rejected MakeErrorResponse e s = makeErrorResponse e s"
| "run_rejected LogError e s = logError e s"

text \<open>
  The promise derived by a link takes the handler's result: fulfilled with what it
  returns, rejected with what it throws.  A handler that suspends leaves the rest of
  its body as a first link, to run in a job of its own.
\<close>

fun settle :: "outcome \<times> ('k, 'm) creation \<Rightarrow> ('k, 'm) creation" where
  "settle (Return v, s) = s\<lparr>settled := Fulfilled v\<rparr>"
| "settle (Throw e, s) = s\<lparr>settled := Rejected e\<rparr>"
| "settle (Await h, s) =
     s\<lparr>settled := Fulfilled (V_js JUndefined), pending := (Some h, None) # pending s\<rparr>"

text \<open>
  One promise job: the first pending link meets the settlement before it.  The jobs
  in which the engine only forwards a settlement from one promise to the next (a
  handler returned a promise) run no code of this module and are not counted.
\<close>

definition tick :: "('k, 'm) stuff \<Rightarrow> ('k, 'm) creation \<Rightarrow> ('k, 'm) creation" where
  "tick st s =
     (case pending s of
        [] \<Rightarrow> s
      | (f, r) # rest \<Rightarrow>
          (case settled s of
             Fulfilled v \<Rightarrow>
               (case f of
                  None \<Rightarrow> s\<lparr>pending := rest\<rparr>
                | Some h \<Rightarrow> settle (run_fulfilled st h v (s\<lparr>pending := rest\<rparr>)))
           | Rejected e \<Rightarrow>
               (case r of
                  None \<Rightarrow> s\<lparr>pending := rest\<rparr>
                | Some h \<Rightarrow> settle (run_rejected h e (s\<lparr>pending := rest\<rparr>)))))"

text \<open>
  What can happen after \<open>createVatDynamically\<close> has returned, in any order: the next
  job of the chain runs, the kernel calls the termination callback, or the kernel
  does something else that changes its own state.
\<close>

datatype 'k action = Tick | Terminate "js_error option" | Kernel "'k \<Rightarrow> 'k"

fun step :: "('k, 'm) stuff \<Rightarrow> 'k action \<Rightarrow> ('k, 'm) creation \<Rightarrow> ('k, 'm) creation" where
  "step st Tick s = tick st s"
| "step st (Terminate error) s = snd (notifyTermination st error s)"
| "step st (Kernel f) s = s\<lparr>kernel := f (kernel s)\<rparr>"

fun run :: "('k, 'm) stuff \<Rightarrow> 'k action list \<Rightarrow> ('k, 'm) creation \<Rightarrow> ('k, 'm) creation" where
  "run st [] s = s"
| "run st (a # as) s = run st as (step st a s)"

fun is_Tick :: "'k action \<Rightarrow> bool" where
  "is_Tick Tick = True"
| "is_Tick _ = False"

definition ticks :: "'k action list \<Rightarrow> nat" where
  "ticks as = length (filter is_Tick as)"

section \<open>Observing the calls\<close>

fun is_newVatCallback :: "'m event \<Rightarrow> bool" where
  "is_newVatCallback (QueueToExport v sl m a p r) = (m = ''newVatCallback'')"
| "is_newVatCallback _ = False"

fun is_vatTerminated :: "'m event \<Rightarrow> bool" where
  "is_vatTerminated (QueueToExport v sl m a p r) = (m = ''vatTerminated'')"
| "is_vatTerminated _ = False"

fun is_QueueToExport :: "'m event \<Rightarrow> bool" where
  "is_QueueToExport (QueueToExport v sl m a p r) = True"
| "is_QueueToExport _ = False"

fun is_AddExport :: "'m event \<Rightarrow> bool" where
  "is_AddExport (AddExport v sl r) = True"
| "is_AddExport _ = False"

fun is_AddVatManager :: "'m event \<Rightarrow> bool" where
  "is_AddVatManager (AddVatManager v n b m r) = True"
| "is_AddVatManager _ = False"

fun is_ImportBundle :: "'m event \<Rightarrow> bool" where
  "is_ImportBundle (ImportBundle b opts r) = True"
| "is_ImportBundle _ = False"

fun is_MakeVatEndowments :: "'m event \<Rightarrow> bool" where
  "is_MakeVatEndowments (MakeVatEndowments v r) = True"
| "is_MakeVatEndowments _ = False"


text \<open>The \<open>newVatCallback\<close> and \<open>vatTerminated\<close> messages handed to \<open>queueToExport\<close>.\<close>

definition newVatCallbacks :: "('k, 'm) creation \<Rightarrow> 'm event list" where
  "newVatCallbacks s = filter is_newVatCallback (calls s)"

definition vatTerminateds :: "('k, 'm) creation \<Rightarrow> 'm event list" where
  "vatTerminateds s = filter is_vatTerminated (calls s)"

section \<open>A concrete kernel\<close>

text \<open>
  Modelled from the spec: the kernel behind \<open>stuff\<close> is not among the sources.  This
  one follows sections 2 and 4.4 of the specification: identifiers \<open>v10\<close>, \<open>v11\<close>, ...
  from a counter; a registry in which a vat is registered at most once; an export
  table whose allocation is idempotent per vat and slot and fails with
  \<open>UnknownVat\<close> for a vat that is not registered; a run queue to which
  \<open>queueToExport\<close> appends.  The loader takes the properties of an object bundle as
  the exports of the module.  It serves to run the model on concrete inputs.
\<close>

record demo_kernel =
  nextVatID :: nat
  vatNames :: "(string \<times> vatID) list"
  vatManagers :: "vatID list"
  nextSlot :: nat
  kernelSlots :: "((vatID \<times> vat_slot) \<times> kernel_slot) list"
  runQueue :: "(vatID \<times> vat_slot \<times> string \<times> chain_value) list"

definition demo_allocateUnusedVatID :: "demo_kernel \<Rightarrow> vatID \<times> demo_kernel" where
  "demo_allocateUnusedVatID k =
     (''v'' @ digits_of (nextVatID k), k\<lparr>nextVatID := nextVatID k + 1\<rparr>)"

definition demo_vatNameToID :: "string \<Rightarrow> demo_kernel \<Rightarrow> (js_error + vatID) \<times> demo_kernel" where
  "demo_vatNameToID n k =
     (case map_of (vatNames k) n of
        None \<Rightarrow> (Inl (Error (''unknown vat name: '' @ n)), k)
      | Some v \<Rightarrow> (Inr v, k))"

definition demo_importBundle ::
  "jsval \<Rightarrow> meter_options import_options \<Rightarrow> demo_kernel
     \<Rightarrow> (js_error + (string \<times> jsval) list) \<times> demo_kernel"
where
  "demo_importBundle b opts k =
     (case b of
        JObject ps \<Rightarrow> (Inr ps, k)
      | _ \<Rightarrow> (Inl (JsError ''TypeError'' ''bundle is not an object''), k))"

definition demo_addVatManager ::
  "vatID \<Rightarrow> string \<Rightarrow> chain_value \<Rightarrow> meter_options \<Rightarrow> demo_kernel
     \<Rightarrow> (js_error + unit) \<times> demo_kernel"
where
  "demo_addVatManager v n setup m k =
     (if v \<in> set (vatManagers k) then (Inl (Error (''already have a vat '' @ v)), k)
      else (Inr (), k\<lparr>vatManagers := vatManagers k @ [v]\<rparr>))"

definition demo_addExport ::
  "vatID \<Rightarrow> vat_slot \<Rightarrow> demo_kernel \<Rightarrow> (js_error + kernel_slot) \<times> demo_kernel"
where
  "demo_addExport v sl k =
     (if v \<notin> set (vatManagers k) then (Inl (Error (''UnknownVat '' @ v)), k)
      else case map_of (kernelSlots k) (v, sl) of
        Some ks \<Rightarrow> (Inr ks, k)
      | None \<Rightarrow>
          (Inr (''ko'' @ digits_of (nextSlot k)),
           k\<lparr>nextSlot := nextSlot k + 1,
             kernelSlots := kernelSlots k @ [((v, sl), ''ko'' @ digits_of (nextSlot k))]\<rparr>))"

definition demo_queueToExport ::
  "vatID \<Rightarrow> vat_slot \<Rightarrow> string \<Rightarrow> chain_value \<Rightarrow> string \<Rightarrow> demo_kernel
     \<Rightarrow> (js_error + unit) \<times> demo_kernel"
where
  "demo_queueToExport v sl m args policy k =
     (Inr (), k\<lparr>runQueue := runQueue k @ [(v, sl, m, args)]\<rparr>)"

definition demo_stuff :: "(demo_kernel, meter_options) stuff" where
  "demo_stuff =
     \<lparr>allocateUnusedVatID = demo_allocateUnusedVatID,
      vatNameToID = demo_vatNameToID,
      makeVatEndowments = (\<lambda>v k. (Inr (JObject []), k)),
      makeGetMeter = (\<lambda>opts k. (opts, k)),
      importBundle = demo_importBundle,
      addVatManager = demo_addVatManager,
      addExport = demo_addExport,
      queueToExport = demo_queueToExport\<rparr>"

text \<open>A started kernel with the administrator vat \<open>v2\<close>, next identifier 10, next slot 42.\<close>

definition demo_kernel0 :: demo_kernel where
  "demo_kernel0 =
     \<lparr>nextVatID = 10, vatNames = [(''vatAdmin'', ''v2'')], vatManagers = [''v2''],
      nextSlot = 42, kernelSlots = [], runQueue = []\<rparr>"


text \<open>Bundles: one whose module exports \<open>buildRootObject\<close>, one whose module does not.\<close>

definition bundleA :: jsval where
  "bundleA = JObject [(''buildRootObject'', JFunction 1)]"


section \<open>The states of one creation\<close>

text \<open>The chain after its first link has run, after its second, and so on.\<close>

definition links1 :: "link list" where "links1 = tl chain"

definition links2 :: "link list" where "links2 = tl links1"

definition links3 :: "link list" where "links3 = tl links2"

definition links4 :: "link list" where "links4 = tl links3"

text \<open>The meter options of a dynamic vat, and the three argument records, by name.\<close>

definition dynamic_options :: meter_options where
  "dynamic_options = \<lparr>refillEachCrank = False, refillIfExhausted = False\<rparr>"

definition success_args :: "vatID \<Rightarrow> kernel_slot \<Rightarrow> capdata" where
  "success_args vid ks =
     \<lparr>body = JSON_stringify (JArr
                [JStr vid,
                 JObj [(''rootObject'', JObj [(''@qclass'', JStr ''slot''), (''index'', JNum 0)])]]),
      slots = [ks]\<rparr>"

definition failure_args :: "vatID \<Rightarrow> string \<Rightarrow> capdata" where
  "failure_args vid text =
     \<lparr>body = JSON_stringify (JArr [JStr vid, JObj [(''error'', JStr text)]]), slots = []\<rparr>"

definition termination_args :: "vatID \<Rightarrow> js_error option \<Rightarrow> capdata" where
  "termination_args vid error =
     \<lparr>body = JSON_stringify (JArr
                [JStr vid,
                 (case error of
                    Some e \<Rightarrow> JObj [(''@qclass'', JStr ''error''),
                                     (''name'', JStr (err_name e)),
                                     (''message'', JStr (err_message e))]
                  | None \<Rightarrow> JObj [(''@qclass'', JStr ''undefined'')])]),
      slots = []\<rparr>"

fun is_VatNameToID :: "'m event \<Rightarrow> bool" where
  "is_VatNameToID (VatNameToID n r) = True"
| "is_VatNameToID _ = False"

text \<open>A call that threw (for \<open>importBundle\<close>, also a promise that was rejected).\<close>

fun threw :: "'m event \<Rightarrow> bool" where
  "threw (AllocateUnusedVatID v) = False"
| "threw (MakeGetMeter opts m) = False"
| "threw (VatNameToID n r) = isl r"
| "threw (MakeVatEndowments v r) = isl r"
| "threw (ImportBundle b opts r) = isl r"
| "threw (AddVatManager v n f m r) = isl r"
| "threw (AddExport v sl r) = isl r"
| "threw (QueueToExport v sl m a p r) = isl r"
| "threw (ConsoleError m e) = False"

text \<open>
  A bound on the jobs a chain still needs: one for each link, and one more for the
  link of \<open>makeBuildRootObject\<close>, whose body is split at its \<open>await\<close>.
\<close>

definition remaining :: "link list \<Rightarrow> nat" where
  "remaining ls = length ls + length (filter (\<lambda>l. fst l = Some MakeBuildRootObject) ls)"

text \<open>
  The creation pipeline as a transition system over what can be observed of one
  creation: the calls made, the links pending, the settlement at the head of the
  chain, and the \<open>terminated\<close> flag.  Each rule is one way one job (or one call of
  the termination callback) can go; \<open>follows_run\<close> below shows that every run of
  the code stays inside it.
\<close>

inductive hist ::
  "vatID \<Rightarrow> 'm \<Rightarrow> jsval \<Rightarrow> 'm event list \<Rightarrow> link list \<Rightarrow> settlement \<Rightarrow> bool \<Rightarrow> bool"
  for vid :: vatID and m :: 'm and b :: jsval
where
  h_start:
    "hist vid m b [AllocateUnusedVatID vid, MakeGetMeter dynamic_options m]
       chain (Fulfilled (V_js JUndefined)) False"
| h_kind:
    "hist vid m b cs chain (Fulfilled v) t \<Longrightarrow> typeof b \<noteq> ''object'' \<Longrightarrow>
     hist vid m b cs links1
       (Rejected (Error ''createVatDynamically() requires bundle, not a plain string'')) t"
| h_endow_throw:
    "hist vid m b cs chain (Fulfilled v) t \<Longrightarrow> typeof b = ''object'' \<Longrightarrow>
     hist vid m b (cs @ [MakeVatEndowments vid (Inl e)]) links1 (Rejected e) t"
| h_import_throw:
    "hist vid m b cs chain (Fulfilled v) t \<Longrightarrow> typeof b = ''object'' \<Longrightarrow>
     hist vid m b
       (cs @ [MakeVatEndowments vid (Inr en),
              ImportBundle b \<lparr>filePrefix = vid, endowments = en, getMeter = m\<rparr> (Inl e)])
       links1 (Rejected e) t"
| h_import:
    "hist vid m b cs chain (Fulfilled v) t \<Longrightarrow> typeof b = ''object'' \<Longrightarrow>
     hist vid m b
       (cs @ [MakeVatEndowments vid (Inr en),
              ImportBundle b \<lparr>filePrefix = vid, endowments = en, getMeter = m\<rparr> (Inr ns)])
       ((Some (ResumeBuildRootObject ns), None) # links1) (Fulfilled (V_js JUndefined)) t"
| h_missing:
    "hist vid m b cs ((Some (ResumeBuildRootObject ns), None) # links1) (Fulfilled v) t \<Longrightarrow>
     typeof (get_prop ns ''buildRootObject'') \<noteq> ''function'' \<Longrightarrow>
     hist vid m b cs links1
       (Rejected (Error ''vat source bundle does not export buildRootObject function'')) t"
| h_built:
    "hist vid m b cs ((Some (ResumeBuildRootObject ns), None) # links1) (Fulfilled v) t \<Longrightarrow>
     typeof (get_prop ns ''buildRootObject'') = ''function'' \<Longrightarrow>
     hist vid m b cs links1 (Fulfilled (V_js (get_prop ns ''buildRootObject''))) t"
| h_manager_skip:
    "hist vid m b cs links1 (Rejected e) t \<Longrightarrow> hist vid m b cs links2 (Rejected e) t"
| h_manager_throw:
    "hist vid m b cs links1 (Fulfilled v) t \<Longrightarrow>
     hist vid m b (cs @ [AddVatManager vid (''dynamicVat'' @ vid) v m (Inl e)])
       links2 (Rejected e) t"
| h_manager:
    "hist vid m b cs links1 (Fulfilled v) t \<Longrightarrow>
     hist vid m b (cs @ [AddVatManager vid (''dynamicVat'' @ vid) v m (Inr ())])
       links2 (Fulfilled (V_js JUndefined)) t"
| h_error_response:
    "hist vid m b cs links2 (Rejected e) t \<Longrightarrow>
     hist vid m b cs links3 (Fulfilled (V_capdata (failure_args vid (error_toString e)))) t"
| h_export_throw:
    "hist vid m b cs links2 (Fulfilled v) t \<Longrightarrow>
     hist vid m b (cs @ [AddExport vid makeVatRootObjectSlot (Inl e)]) links3 (Rejected e) t"
| h_success_response:
    "hist vid m b cs links2 (Fulfilled v) t \<Longrightarrow>
     hist vid m b (cs @ [AddExport vid makeVatRootObjectSlot (Inr ks)]) links3
       (Fulfilled (V_capdata (success_args vid ks))) t"
| h_send_skip:
    "hist vid m b cs links3 (Rejected e) t \<Longrightarrow> hist vid m b cs links4 (Rejected e) t"
| h_send_no_admin:
    "hist vid m b cs links3 (Fulfilled v) t \<Longrightarrow>
     hist vid m b (cs @ [VatNameToID ''vatAdmin'' (Inl e)]) links4 (Rejected e) t"
| h_send_throw:
    "hist vid m b cs links3 (Fulfilled v) t \<Longrightarrow>
     hist vid m b
       (cs @ [VatNameToID ''vatAdmin'' (Inr a),
              QueueToExport a makeVatRootObjectSlot ''newVatCallback'' v ''logFailure'' (Inl e)])
       links4 (Rejected e) t"
| h_send:
    "hist vid m b cs links3 (Fulfilled v) t \<Longrightarrow>
     hist vid m b
       (cs @ [VatNameToID ''vatAdmin'' (Inr a),
              QueueToExport a makeVatRootObjectSlot ''newVatCallback'' v ''logFailure'' (Inr ())])
       links4 (Fulfilled (V_js JUndefined)) t"
| h_catch_skip:
    "hist vid m b cs links4 (Fulfilled v) t \<Longrightarrow> hist vid m b cs [] (Fulfilled v) t"
| h_catch:
    "hist vid m b cs links4 (Rejected e) t \<Longrightarrow>
     hist vid m b (cs @ [ConsoleError ''error in createVatDynamically'' e]) []
       (Fulfilled (V_js JUndefined)) t"
| h_terminate_no_admin:
    "hist vid m b cs p \<sigma> False \<Longrightarrow>
     hist vid m b (cs @ [VatNameToID ''vatAdmin'' (Inl e)]) p \<sigma> True"
| h_terminate:
    "hist vid m b cs p \<sigma> False \<Longrightarrow>
     hist vid m b
       (cs @ [VatNameToID ''vatAdmin'' (Inr a),
              QueueToExport a makeVatRootObjectSlot ''vatTerminated''
                (V_capdata (termination_args vid error)) ''logFailure'' r])
       p \<sigma> True"

definition follows :: "('k, 'm) creation \<Rightarrow> bool" where
  "follows s =
     hist (vatID s) (meterRecord s) (vatSourceBundle s) (calls s) (pending s) (settled s)
       (terminated s)"

text \<open>The two errors \<open>makeBuildRootObject\<close> throws itself, by name.\<close>

definition invalid_bundle_kind :: js_error where
  "invalid_bundle_kind = Error ''createVatDynamically() requires bundle, not a plain string''"


section \<open>Every run follows the transition system\<close>

lemma hist_positions:
  "hist vid m b cs p \<sigma> t \<Longrightarrow>
     (p = chain \<and> (\<exists>v. \<sigma> = Fulfilled v)) \<or>
     (\<exists>ns v. p = (Some (ResumeBuildRootObject ns), None) # links1 \<and> \<sigma> = Fulfilled v) \<or>
     p = links1 \<or> p = links2 \<or> p = links3 \<or> p = links4 \<or> p = []"
  by (induction rule: hist.induct) auto

lemma follows_create: "follows (snd (createVatDynamically st b k))"
  by (auto simp add: follows_def createVatDynamically_def dynamic_options_def[symmetric] Let_def
      split: prod.splits intro: h_start)

lemma follows_kernel: "follows s \<Longrightarrow> follows (s\<lparr>kernel := k\<rparr>)"
  by (simp add: follows_def)

lemma follows_terminate: "follows s \<Longrightarrow> follows (snd (notifyTermination st error s))"
  unfolding follows_def notifyTermination_def call_def Let_def
  by (auto split: prod.splits sum.splits
      intro: h_terminate_no_admin h_terminate[unfolded termination_args_def])

lemmas link_defs = links1_def links2_def links3_def links4_def chain_def

lemma tick_chain:
  assumes "follows s" "pending s = chain" "settled s = Fulfilled v"
  shows "follows (tick st s)"
  using assms unfolding follows_def
  by (auto simp: tick_def chain_def makeBuildRootObject_def call_def Let_def
      split: prod.splits sum.splits
      intro: h_kind[unfolded link_defs, simplified] h_endow_throw[unfolded link_defs, simplified]
        h_import_throw[unfolded link_defs, simplified] h_import[unfolded link_defs, simplified])

lemma tick_resume:
  assumes "follows s" "pending s = (Some (ResumeBuildRootObject ns), None) # links1"
    "settled s = Fulfilled v"
  shows "follows (tick st s)"
  using assms unfolding follows_def
  by (auto simp: tick_def resumeBuildRootObject_def
      intro: h_missing h_built)

lemma tick_links1:
  assumes "follows s" "pending s = links1"
  shows "follows (tick st s)"
  using assms unfolding follows_def
  by (cases "settled s")
     (auto simp: tick_def makeVatManager_def call_def Let_def link_defs
      split: prod.splits sum.splits
      intro: h_manager_skip[unfolded link_defs, simplified]
        h_manager_throw[unfolded link_defs, simplified]
        h_manager[unfolded link_defs, simplified])

lemma tick_links2:
  assumes "follows s" "pending s = links2"
  shows "follows (tick st s)"
  using assms unfolding follows_def
  by (cases "settled s")
     (auto simp: tick_def makeSuccessResponse_def makeErrorResponse_def call_def Let_def link_defs
      split: prod.splits sum.splits
      intro: h_error_response[unfolded link_defs failure_args_def, simplified]
        h_export_throw[unfolded link_defs, simplified]
        h_success_response[unfolded link_defs success_args_def, simplified])

lemma tick_links3:
  assumes "follows s" "pending s = links3"
  shows "follows (tick st s)"
  using assms unfolding follows_def
  by (cases "settled s")
     (auto simp: tick_def sendResponse_def call_def Let_def link_defs
      split: prod.splits sum.splits
      intro: h_send_skip[unfolded link_defs, simplified]
        h_send_no_admin[unfolded link_defs, simplified]
        h_send_throw[unfolded link_defs, simplified]
        h_send[unfolded link_defs, simplified])

lemma tick_links4:
  assumes "follows s" "pending s = links4"
  shows "follows (tick st s)"
  using assms unfolding follows_def
  by (cases "settled s")
     (auto simp: tick_def logError_def link_defs
      intro: h_catch_skip[unfolded link_defs, simplified]
        h_catch[unfolded link_defs, simplified])

lemma tick_done: "pending s = [] \<Longrightarrow> tick st s = s"
  by (simp add: tick_def)

lemma follows_tick:
  assumes "follows s"
  shows "follows (tick st s)"
proof -
  from assms have "hist (vatID s) (meterRecord s) (vatSourceBundle s) (calls s) (pending s)
      (settled s) (terminated s)"
    by (simp add: follows_def)
  from hist_positions[OF this] show ?thesis
    using assms tick_chain tick_resume tick_links1 tick_links2 tick_links3 tick_links4
    by (metis tick_done)
qed

lemma follows_step: "follows s \<Longrightarrow> follows (step st a s)"
  by (cases a) (simp_all add: follows_tick follows_terminate follows_kernel)

lemma follows_run: "follows s \<Longrightarrow> follows (run st as s)"
  by (induction as arbitrary: s) (simp_all add: follows_step)

lemma pending_terminate [simp]: "pending (snd (notifyTermination st error s)) = pending s"
  by (auto simp: notifyTermination_def call_def Let_def split: prod.splits sum.splits)

lemma tick_remaining: "remaining (pending (tick st s)) \<le> remaining (pending s) - 1"
proof (cases "pending s")
  case Nil
  then show ?thesis by (simp add: tick_def remaining_def)
next
  case (Cons l rest)
  obtain f r where l: "l = (f, r)" by (cases l)
  show ?thesis
  proof (cases "settled s")
    case (Fulfilled v)
    show ?thesis
    proof (cases f)
      case None
      with Cons l Fulfilled show ?thesis by (simp add: tick_def remaining_def)
    next
      case (Some h)
      with Cons l Fulfilled show ?thesis
        by (cases h)
           (auto simp: tick_def remaining_def makeBuildRootObject_def resumeBuildRootObject_def
              makeVatManager_def makeSuccessResponse_def sendResponse_def call_def Let_def
              split: prod.splits sum.splits)
    qed
  next
    case (Rejected e)
    show ?thesis
    proof (cases r)
      case None
      with Cons l Rejected show ?thesis by (simp add: tick_def remaining_def)
    next
      case (Some h)
      with Cons l Rejected show ?thesis
        by (cases h) (auto simp: tick_def remaining_def makeErrorResponse_def logError_def)
    qed
  qed
qed

lemma run_remaining: "remaining (pending (run st as s)) \<le> remaining (pending s) - ticks as"
proof (induction as arbitrary: s)
  case Nil
  then show ?case by (simp add: ticks_def)
next
  case (Cons a as)
  show ?case
  proof (cases a)
    case Tick
    have "remaining (pending (run st as (tick st s))) \<le> remaining (pending (tick st s)) - ticks as"
      by (rule Cons.IH)
    also have "\<dots> \<le> (remaining (pending s) - 1) - ticks as"
      using tick_remaining[of st s] by simp
    finally show ?thesis using Tick by (simp add: ticks_def)
  next
    case (Terminate error)
    then show ?thesis using Cons.IH[of "snd (notifyTermination st error s)"]
      by (simp add: ticks_def)
  next
    case (Kernel f)
    then show ?thesis using Cons.IH[of "s\<lparr>kernel := f (kernel s)\<rparr>"]
      by (simp add: ticks_def)
  qed
qed




lemma hist_newVatCallback:
  "hist vid m b cs p \<sigma> t \<Longrightarrow>
     length (filter is_newVatCallback cs) \<le> 1 \<and>
     (filter is_newVatCallback cs \<noteq> [] \<longrightarrow> p = links4 \<or> p = [])"
  by (induction rule: hist.induct) (auto simp: link_defs)

lemma vatID_terminate [simp]: "vatID (snd (notifyTermination st error s)) = vatID s"
  by (auto simp: notifyTermination_def call_def Let_def split: prod.splits sum.splits)

lemma meterRecord_terminate [simp]:
  "meterRecord (snd (notifyTermination st error s)) = meterRecord s"
  by (auto simp: notifyTermination_def call_def Let_def split: prod.splits sum.splits)

lemma bundle_terminate [simp]:
  "vatSourceBundle (snd (notifyTermination st error s)) = vatSourceBundle s"
  by (auto simp: notifyTermination_def call_def Let_def split: prod.splits sum.splits)

lemma constants_tick:
  "vatID (tick st s) = vatID s \<and> meterRecord (tick st s) = meterRecord s \<and>
   vatSourceBundle (tick st s) = vatSourceBundle s"
proof (cases "pending s")
  case Nil
  then show ?thesis by (simp add: tick_def)
next
  case (Cons l rest)
  obtain f r where l: "l = (f, r)" by (cases l)
  show ?thesis
  proof (cases "settled s")
    case (Fulfilled v)
    show ?thesis
    proof (cases f)
      case None
      with Cons l Fulfilled show ?thesis by (simp add: tick_def)
    next
      case (Some h)
      with Cons l Fulfilled show ?thesis
        by (cases h)
           (auto simp: tick_def makeBuildRootObject_def resumeBuildRootObject_def
              makeVatManager_def makeSuccessResponse_def sendResponse_def call_def Let_def
              split: prod.splits sum.splits)
    qed
  next
    case (Rejected e)
    show ?thesis
    proof (cases r)
      case None
      with Cons l Rejected show ?thesis by (simp add: tick_def)
    next
      case (Some h)
      with Cons l Rejected show ?thesis
        by (cases h) (auto simp: tick_def makeErrorResponse_def logError_def)
    qed
  qed
qed

lemma constants_run:
  "vatID (run st as s) = vatID s \<and> meterRecord (run st as s) = meterRecord s \<and>
   vatSourceBundle (run st as s) = vatSourceBundle s"
proof (induction as arbitrary: s)
  case Nil
  then show ?case by simp
next
  case (Cons a as)
  then show ?case by (cases a) (simp_all add: constants_tick)
qed

lemma created_fields:
  "vatID (snd (createVatDynamically st b k)) = fst (createVatDynamically st b k)"
  "vatSourceBundle (snd (createVatDynamically st b k)) = b"
  "pending (snd (createVatDynamically st b k)) = chain"
  by (simp_all add: createVatDynamically_def Let_def split: prod.splits)

text \<open>The history of any run that starts at the return of \<open>createVatDynamically\<close>.\<close>

lemma run_hist:
  "hist (fst (createVatDynamically st b k)) (meterRecord (snd (createVatDynamically st b k))) b
     (calls (run st as (snd (createVatDynamically st b k))))
     (pending (run st as (snd (createVatDynamically st b k))))
     (settled (run st as (snd (createVatDynamically st b k))))
     (terminated (run st as (snd (createVatDynamically st b k))))"
  using follows_run[OF follows_create, of st as st b k]
  by (simp add: follows_def constants_run created_fields)

lemma hist_prefix:
  "hist vid m b cs p \<sigma> t \<Longrightarrow>
     \<exists>rest. cs = [AllocateUnusedVatID vid, MakeGetMeter dynamic_options m] @ rest"
  by (induction rule: hist.induct) auto

section \<open>Invariants of the transition system\<close>

lemma links_distinct [simp]:
  "chain \<noteq> links1" "chain \<noteq> links2" "chain \<noteq> links3" "chain \<noteq> links4" "chain \<noteq> []"
  "links1 \<noteq> chain" "links1 \<noteq> links2" "links1 \<noteq> links3" "links1 \<noteq> links4" "links1 \<noteq> []"
  "links2 \<noteq> chain" "links2 \<noteq> links1" "links2 \<noteq> links3" "links2 \<noteq> links4" "links2 \<noteq> []"
  "links3 \<noteq> chain" "links3 \<noteq> links1" "links3 \<noteq> links2" "links3 \<noteq> links4" "links3 \<noteq> []"
  "links4 \<noteq> chain" "links4 \<noteq> links1" "links4 \<noteq> links2" "links4 \<noteq> links3" "links4 \<noteq> []"
  "h # links1 \<noteq> links1" "h # links1 \<noteq> links2" "h # links1 \<noteq> links3" "h # links1 \<noteq> links4"
  "links1 \<noteq> h # links1" "links2 \<noteq> h # links1" "links3 \<noteq> h # links1" "links4 \<noteq> h # links1"
  "(Some (ResumeBuildRootObject ns), r) # links1 \<noteq> chain"
  "chain \<noteq> (Some (ResumeBuildRootObject ns), r) # links1"
  "[] \<noteq> chain" "[] \<noteq> links1" "[] \<noteq> links2" "[] \<noteq> links3" "[] \<noteq> links4"
  by (simp_all add: link_defs)

lemma hist_terminated:
  "hist vid m b cs p \<sigma> t \<Longrightarrow>
     length (filter is_vatTerminated cs) \<le> (if t then 1 else 0) \<and>
     (\<forall>ev \<in> set (filter is_vatTerminated cs). \<exists>a error r.
        ev = QueueToExport a makeVatRootObjectSlot ''vatTerminated''
               (V_capdata (termination_args vid error)) ''logFailure'' r \<and>
        VatNameToID ''vatAdmin'' (Inr a) \<in> set cs)"
  by (induction rule: hist.induct) (auto, blast+)


lemma hist_exactly_one:
  "hist vid m b cs p \<sigma> t \<Longrightarrow>
   filter (\<lambda>ev. threw ev \<and> (is_AddExport ev \<or> is_VatNameToID ev)) cs = [] \<Longrightarrow>
     (p = links3 \<longrightarrow> (\<exists>v. \<sigma> = Fulfilled v)) \<and>
     (p \<noteq> links4 \<and> p \<noteq> [] \<longrightarrow> filter is_newVatCallback cs = []) \<and>
     (p = links4 \<or> p = [] \<longrightarrow> length (filter is_newVatCallback cs) = 1)"
  by (induction rule: hist.induct) (auto split: if_splits)


lemma hist_not_object:
  "hist vid m b cs p \<sigma> t \<Longrightarrow> typeof b \<noteq> ''object'' \<Longrightarrow>
     filter (\<lambda>ev. is_MakeVatEndowments ev \<or> is_ImportBundle ev \<or> is_AddVatManager ev \<or>
                  is_AddExport ev) cs = [] \<and>
     (\<forall>ns. p \<noteq> (Some (ResumeBuildRootObject ns), None) # links1) \<and>
     (p = links1 \<or> p = links2 \<longrightarrow> \<sigma> = Rejected invalid_bundle_kind) \<and>
     (p = links3 \<longrightarrow>
        \<sigma> = Fulfilled (V_capdata (failure_args vid (error_toString invalid_bundle_kind)))) \<and>
     (\<forall>ev \<in> set (filter is_newVatCallback cs). \<exists>a r.
        ev = QueueToExport a makeVatRootObjectSlot ''newVatCallback''
               (V_capdata (failure_args vid (error_toString invalid_bundle_kind)))
               ''logFailure'' r)"
  by (induction rule: hist.induct) (auto simp: invalid_bundle_kind_def)

lemma hist_loading:
  "hist vid m b cs p \<sigma> t \<Longrightarrow> typeof b = ''object'' \<Longrightarrow> p \<noteq> chain \<Longrightarrow>
     \<exists>r. MakeVatEndowments vid r \<in> set cs"
  by (induction rule: hist.induct) auto


lemma hist_export:
  "hist vid m b cs p \<sigma> t \<Longrightarrow>
     (p \<noteq> links3 \<and> p \<noteq> links4 \<and> p \<noteq> [] \<longrightarrow> filter is_AddExport cs = []) \<and>
     (p \<noteq> links4 \<and> p \<noteq> [] \<longrightarrow> filter is_newVatCallback cs = []) \<and>
     (p = chain \<or> (\<exists>ns. p = (Some (ResumeBuildRootObject ns), None) # links1) \<or> p = links1
        \<longrightarrow> filter is_AddVatManager cs = []) \<and>
     (p = links2 \<and> (\<exists>v. \<sigma> = Fulfilled v) \<longrightarrow>
        (\<exists>f. AddVatManager vid (''dynamicVat'' @ vid) f m (Inr ()) \<in> set cs)) \<and>
     (\<forall>v n f m'. AddVatManager v n f m' (Inr ()) \<in> set cs \<longrightarrow>
        (p = links2 \<longrightarrow> (\<exists>v. \<sigma> = Fulfilled v)) \<and>
        (p = links3 \<or> p = links4 \<or> p = [] \<longrightarrow>
           (\<exists>r. filter is_AddExport cs = [AddExport vid makeVatRootObjectSlot r]))) \<and>
     (\<forall>v sl ks. AddExport v sl (Inr ks) \<in> set cs \<longrightarrow>
        filter is_AddExport cs = [AddExport vid makeVatRootObjectSlot (Inr ks)] \<and>
        (\<exists>f. AddVatManager vid (''dynamicVat'' @ vid) f m (Inr ()) \<in> set cs) \<and>
        (p = links3 \<longrightarrow> \<sigma> = Fulfilled (V_capdata (success_args vid ks))) \<and>
        (\<forall>ev \<in> set (filter is_newVatCallback cs). \<exists>a r.
           ev = QueueToExport a makeVatRootObjectSlot ''newVatCallback''
                  (V_capdata (success_args vid ks)) ''logFailure'' r))"
  by (induction rule: hist.induct) (auto simp: filter_empty_conv)




section \<open>The synchronous part\<close>

text \<open>
  C2.  Whatever the bundle, a plain string included, \<open>createVatDynamically\<close> returns
  the identifier that \<open>allocateUnusedVatID\<close> has just allocated, and at that moment
  the whole chain is still pending: no endowments were made, no bundle was imported,
  no vat manager was registered, no export slot was allocated and nothing was
  queued.
\<close>

theorem createVatDynamically_returns_at_once:
  "fst (createVatDynamically st b k) = fst (allocateUnusedVatID st k) \<and>
   vatID (snd (createVatDynamically st b k)) = fst (allocateUnusedVatID st k) \<and>
   pending (snd (createVatDynamically st b k)) = chain \<and>
   filter (\<lambda>ev. is_MakeVatEndowments ev \<or> is_ImportBundle ev \<or> is_AddVatManager ev \<or>
                is_AddExport ev \<or> is_QueueToExport ev)
     (calls (snd (createVatDynamically st b k))) = []"
  by (simp add: createVatDynamically_def Let_def split: prod.splits)

text \<open>
  C8.  Every creation allocates its meter record right after its identifier, with
  \<open>refillEachCrank\<close> and \<open>refillIfExhausted\<close> both false: these are the only two
  calls made when \<open>createVatDynamically\<close> returns, the link that validates
  the bundle has not run yet, and in every later state they are the first two calls.
\<close>

theorem meter_allocated_with_identifier:
  "calls (snd (createVatDynamically st b k)) =
     [AllocateUnusedVatID (fst (allocateUnusedVatID st k)),
      MakeGetMeter \<lparr>refillEachCrank = False, refillIfExhausted = False\<rparr>
        (fst (makeGetMeter st \<lparr>refillEachCrank = False, refillIfExhausted = False\<rparr>
           (snd (allocateUnusedVatID st k))))] \<and>
   meterRecord (snd (createVatDynamically st b k)) =
     fst (makeGetMeter st \<lparr>refillEachCrank = False, refillIfExhausted = False\<rparr>
           (snd (allocateUnusedVatID st k))) \<and>
   hd (pending (snd (createVatDynamically st b k))) = (Some MakeBuildRootObject, None) \<and>
   take 2 (calls (run st as (snd (createVatDynamically st b k)))) =
     calls (snd (createVatDynamically st b k))"
proof -
  from hist_prefix[OF run_hist[of st b k as]]
  have "take 2 (calls (run st as (snd (createVatDynamically st b k)))) =
      [AllocateUnusedVatID (fst (createVatDynamically st b k)),
       MakeGetMeter dynamic_options (meterRecord (snd (createVatDynamically st b k)))]"
    by auto
  then show ?thesis
    by (simp add: createVatDynamically_def Let_def dynamic_options_def chain_def
        split: prod.splits)
qed

section \<open>Termination is notified once\<close>

lemma notifyTermination_terminated [simp]:
  "terminated (snd (notifyTermination st error s))"
  by (auto simp: notifyTermination_def call_def Let_def split: prod.splits sum.splits)

lemma notifyTermination_again:
  "terminated s \<Longrightarrow> notifyTermination st error s = (Inr (), s)"
  by (simp add: notifyTermination_def)

lemma run_terminated: "terminated s \<Longrightarrow> run st (map Terminate es) s = s"
  by (induction es) (simp_all add: notifyTermination_again)

text \<open>
  C4.  The termination callback is idempotent.  However often it is invoked and
  with whatever errors, the state after the invocations is the state after the
  first of them, so only the first one can queue a message.  In every run of a
  creation at most one \<open>vatTerminated\<close> message is queued; it goes to the root
  object slot of the vat that \<open>vatNameToID\<close> returned for \<open>vatAdmin\<close>; its body is
  the array of the identifier and either the error descriptor with the name and
  the message of the error, or the \<open>undefined\<close> marker; its slot list is empty.
\<close>

theorem notifyTermination_once:
  fixes st :: "('k, 'm) stuff" and as b k and s' :: "('k, 'm) creation"
  defines "s \<equiv> run st as (snd (createVatDynamically st b k))"
  shows
    "run st (map Terminate (e # es)) s' = snd (notifyTermination st e s') \<and>
     length (vatTerminateds s) \<le> 1 \<and>
     (\<forall>ev \<in> set (vatTerminateds s). \<exists>a error r.
        ev = QueueToExport a makeVatRootObjectSlot ''vatTerminated''
               (V_capdata (termination_args (vatID s) error)) ''logFailure'' r \<and>
        VatNameToID ''vatAdmin'' (Inr a) \<in> set (calls s)) \<and>
     slot_id makeVatRootObjectSlot = 0 \<and>
     termination_args v None =
       \<lparr>body = JSON_stringify (JArr [JStr v, JObj [(''@qclass'', JStr ''undefined'')]]),
        slots = []\<rparr> \<and>
     termination_args v (Some err) =
       \<lparr>body = JSON_stringify (JArr [JStr v,
                 JObj [(''@qclass'', JStr ''error''), (''name'', JStr (err_name err)),
                       (''message'', JStr (err_message err))]]),
        slots = []\<rparr>"
proof -
  have first: "run st (map Terminate (e # es)) s' = snd (notifyTermination st e s')"
    by (simp add: run_terminated)
  have vid: "vatID (run st as (snd (createVatDynamically st b k))) =
      fst (createVatDynamically st b k)"
    by (simp add: constants_run created_fields)
  from hist_terminated[OF run_hist[of st b k as]]
  have "length (vatTerminateds s) \<le> 1"
    and "\<forall>ev \<in> set (vatTerminateds s). \<exists>a error r.
        ev = QueueToExport a makeVatRootObjectSlot ''vatTerminated''
               (V_capdata (termination_args (vatID s) error)) ''logFailure'' r \<and>
        VatNameToID ''vatAdmin'' (Inr a) \<in> set (calls s)"
    unfolding vatTerminateds_def s_def vid by (auto split: if_splits)
  with first show ?thesis
    by (simp add: termination_args_def makeVatRootObjectSlot_def makeVatSlot_def)
qed

theorem notifyTermination_once_witness:
  "vatTerminateds
     (run demo_stuff
        [Tick, Tick, Tick, Terminate (Some (Error ''boom'')), Terminate None, Tick, Tick, Tick,
         Terminate (Some (Error ''again''))]
        (snd (createVatDynamically demo_stuff bundleA demo_kernel0))) =
   [QueueToExport ''v2'' makeVatRootObjectSlot ''vatTerminated''
      (V_capdata
         \<lparr>body = ''[\"v10\",{\"@qclass\":\"error\",\"name\":\"Error\",\"message\":\"boom\"}]'',
          slots = []\<rparr>)
      ''logFailure'' (Inr ())]"
proof -
  have e: "vatTerminateds
     (run demo_stuff
        [Tick, Tick, Tick, Terminate (Some (Error ''boom'')), Terminate None, Tick, Tick, Tick,
         Terminate (Some (Error ''again''))]
        (snd (createVatDynamically demo_stuff bundleA demo_kernel0))) =
   [QueueToExport ''v2'' makeVatRootObjectSlot ''vatTerminated''
      (V_capdata
         \<lparr>body = ''[\"v10\",{\"@qclass\":\"error\",\"name\":\"Error\",\"message\":\"boom\"}]'',
          slots = []\<rparr>)
      ''logFailure'' (Inr ())]"
    by code_simp
  from notifyTermination_once[where st = demo_stuff and b = bundleA and k = demo_kernel0
      and as = "[Tick, Tick, Tick, Terminate (Some (Error ''boom'')), Terminate None, Tick, Tick, Tick,
        Terminate (Some (Error ''again''))]"] e
  show ?thesis by simp
qed

section \<open>The creation callback\<close>






section \<open>The failure notifications\<close>



lemma run_vatID:
  "vatID (run st as (snd (createVatDynamically st b k))) = fst (createVatDynamically st b k)"
  by (simp add: constants_run created_fields)








section \<open>The success notification\<close>

lemma no_throw_with_export:
  assumes "filter is_AddExport cs = [AddExport v sl (Inr ks)]"
    "filter (\<lambda>ev. threw ev \<and> is_VatNameToID ev) cs = []"
  shows "filter (\<lambda>ev. threw ev \<and> (is_AddExport ev \<or> is_VatNameToID ev)) cs = []"
proof -
  have "\<not> threw ev" if "ev \<in> set cs" "is_AddExport ev" for ev
  proof -
    from that have "ev \<in> set (filter is_AddExport cs)" by simp
    with assms(1) show ?thesis by simp
  qed
  with assms(2) show ?thesis by (auto simp: filter_empty_conv)
qed

text \<open>
  C7.  On the success path (the vat manager was registered) the chain, once at its
  end, has called \<open>addExport\<close> exactly once, for the new vat and its root object
  slot, the object the vat allocated at index 0.  When that call returned the
  kernel slot \<open>ks\<close>, every \<open>newVatCallback\<close> queued (at most one; exactly one at the
  end of the chain when \<open>vatNameToID\<close> has not thrown) has the body
  \<open>[vatID, {rootObject: {@qclass: slot, index: 0}}]\<close> and the slot list \<open>[ks]\<close>,
  so that the one slot reference of the body, index 0, is the slot just allocated.
\<close>

theorem success_response:
  fixes st :: "('k, 'm) stuff" and as b k
  defines "s \<equiv> run st as (snd (createVatDynamically st b k))"
  shows
    "(AddVatManager v n f m' (Inr ()) \<in> set (calls s) \<and> pending s = [] \<longrightarrow>
        (\<exists>r. filter is_AddExport (calls s) = [AddExport (vatID s) makeVatRootObjectSlot r])) \<and>
     (AddExport v' sl (Inr ks) \<in> set (calls s) \<longrightarrow>
        filter is_AddExport (calls s) = [AddExport (vatID s) makeVatRootObjectSlot (Inr ks)] \<and>
        (\<exists>f. AddVatManager (vatID s) (''dynamicVat'' @ vatID s) f (meterRecord s) (Inr ())
               \<in> set (calls s)) \<and>
        length (newVatCallbacks s) \<le> 1 \<and>
        (\<forall>ev \<in> set (newVatCallbacks s). \<exists>a r.
           ev = QueueToExport a makeVatRootObjectSlot ''newVatCallback''
                  (V_capdata
                     \<lparr>body = JSON_stringify (JArr
                        [JStr (vatID s),
                         JObj [(''rootObject'',
                                JObj [(''@qclass'', JStr ''slot''), (''index'', JNum 0)])]]),
                      slots = [ks]\<rparr>)
                  ''logFailure'' r) \<and>
        (pending s = [] \<and> filter (\<lambda>ev. threw ev \<and> is_VatNameToID ev) (calls s) = []
           \<longrightarrow> length (newVatCallbacks s) = 1)) \<and>
     makeVatRootObjectSlot = \<lparr>slot_type = ''object'', allocatedByVat = True, slot_id = 0\<rparr>"
proof -
  let ?s = "run st as (snd (createVatDynamically st b k))"
  note h = run_hist[of st b k as]
  have m: "meterRecord ?s = meterRecord (snd (createVatDynamically st b k))"
    by (simp add: constants_run)
  have registered: "\<exists>r. filter is_AddExport (calls ?s) =
      [AddExport (vatID ?s) makeVatRootObjectSlot r]"
    if "AddVatManager v n f m' (Inr ()) \<in> set (calls ?s)" "pending ?s = []"
    using hist_export[OF h] that unfolding run_vatID by blast
  have exported:
    "filter is_AddExport (calls ?s) = [AddExport (vatID ?s) makeVatRootObjectSlot (Inr ks)] \<and>
     (\<exists>f. AddVatManager (vatID ?s) (''dynamicVat'' @ vatID ?s) f (meterRecord ?s) (Inr ())
            \<in> set (calls ?s)) \<and>
     length (newVatCallbacks ?s) \<le> 1 \<and>
     (\<forall>ev \<in> set (newVatCallbacks ?s). \<exists>a r.
        ev = QueueToExport a makeVatRootObjectSlot ''newVatCallback''
               (V_capdata (success_args (vatID ?s) ks)) ''logFailure'' r) \<and>
     (pending ?s = [] \<and> filter (\<lambda>ev. threw ev \<and> is_VatNameToID ev) (calls ?s) = []
        \<longrightarrow> length (newVatCallbacks ?s) = 1)"
    if a: "AddExport v' sl (Inr ks) \<in> set (calls ?s)"
  proof -
    from hist_export[OF h] a
    have one: "filter is_AddExport (calls ?s) =
        [AddExport (vatID ?s) makeVatRootObjectSlot (Inr ks)]"
      and reg: "\<exists>f. AddVatManager (vatID ?s) (''dynamicVat'' @ vatID ?s) f (meterRecord ?s)
          (Inr ()) \<in> set (calls ?s)"
      and shape: "\<forall>ev \<in> set (newVatCallbacks ?s). \<exists>a r.
        ev = QueueToExport a makeVatRootObjectSlot ''newVatCallback''
               (V_capdata (success_args (vatID ?s) ks)) ''logFailure'' r"
      unfolding run_vatID m newVatCallbacks_def by blast+
    from hist_newVatCallback[OF h] have le: "length (newVatCallbacks ?s) \<le> 1"
      by (simp add: newVatCallbacks_def)
    have ex: "length (newVatCallbacks ?s) = 1"
      if "pending ?s = []" "filter (\<lambda>ev. threw ev \<and> is_VatNameToID ev) (calls ?s) = []"
      using hist_exactly_one[OF h no_throw_with_export[OF one that(2)]] that(1)
      by (simp add: newVatCallbacks_def)
    from one reg shape le ex show ?thesis by blast
  qed
  have root: "makeVatRootObjectSlot = \<lparr>slot_type = ''object'', allocatedByVat = True, slot_id = 0\<rparr>"
    by (simp add: makeVatRootObjectSlot_def makeVatSlot_def)
  from registered exported show ?thesis
    unfolding s_def success_args_def using root by blast
qed

theorem success_response_witness:
  "filter is_AddExport (calls (run demo_stuff [Tick, Tick, Tick, Tick, Tick, Tick]
      (snd (createVatDynamically demo_stuff bundleA demo_kernel0)))) =
     [AddExport ''v10'' \<lparr>slot_type = ''object'', allocatedByVat = True, slot_id = 0\<rparr>
        (Inr ''ko42'')] \<and>
   newVatCallbacks (run demo_stuff [Tick, Tick, Tick, Tick, Tick, Tick]
      (snd (createVatDynamically demo_stuff bundleA demo_kernel0))) =
     [QueueToExport ''v2'' makeVatRootObjectSlot ''newVatCallback''
        (V_capdata
           \<lparr>body = ''[\"v10\",{\"rootObject\":{\"@qclass\":\"slot\",\"index\":0}}]'',
            slots = [''ko42'']\<rparr>)
        ''logFailure'' (Inr ())]"
proof -
  have a: "AddExport ''v10'' makeVatRootObjectSlot (Inr ''ko42'')
      \<in> set (calls (run demo_stuff [Tick, Tick, Tick, Tick, Tick, Tick]
          (snd (createVatDynamically demo_stuff bundleA demo_kernel0))))"
    by code_simp
  have n: "newVatCallbacks (run demo_stuff [Tick, Tick, Tick, Tick, Tick, Tick]
      (snd (createVatDynamically demo_stuff bundleA demo_kernel0))) =
     [QueueToExport ''v2'' makeVatRootObjectSlot ''newVatCallback''
        (V_capdata
           \<lparr>body = ''[\"v10\",{\"rootObject\":{\"@qclass\":\"slot\",\"index\":0}}]'',
            slots = [''ko42'']\<rparr>)
        ''logFailure'' (Inr ())]"
    by code_simp
  have v: "vatID (run demo_stuff [Tick, Tick, Tick, Tick, Tick, Tick]
      (snd (createVatDynamically demo_stuff bundleA demo_kernel0))) = ''v10''"
    by code_simp
  from success_response[where st = demo_stuff and b = bundleA and k = demo_kernel0
      and as = "[Tick, Tick, Tick, Tick, Tick, Tick]" and v' = "''v10''"
      and sl = makeVatRootObjectSlot and ks = "''ko42''"] a n v
  show ?thesis by simp
qed

section \<open>Errors\<close>



text \<open>
  C10.  The validation of the bundle rejects exactly the values whose \<open>typeof\<close> is
  not \<open>object\<close>, that is all values but \<open>null\<close> and the objects.  For such a value
  the first job rejects with the error
  \<open>createVatDynamically() requires bundle, not a plain string\<close> without calling
  anything, and no run ever makes endowments, imports, registers or exports.  For
  \<open>null\<close> and for an object the first job goes on to the loading stage: after
  one job \<open>makeVatEndowments\<close> has been called for the new vat.
\<close>

theorem bundle_kind_validation:
  fixes st :: "('k, 'm) stuff" and as b k
  defines "s0 \<equiv> snd (createVatDynamically st b k)"
  shows
    "((typeof b \<noteq> ''object'') = (b \<noteq> JNull \<and> (\<forall>ps. b \<noteq> JObject ps))) \<and>
     typeof JNull = ''object'' \<and>
     (typeof b \<noteq> ''object'' \<longrightarrow>
        settled (tick st s0) =
          Rejected (Error ''createVatDynamically() requires bundle, not a plain string'') \<and>
        calls (tick st s0) = calls s0 \<and>
        filter (\<lambda>ev. is_MakeVatEndowments ev \<or> is_ImportBundle ev \<or> is_AddVatManager ev \<or>
                     is_AddExport ev) (calls (run st as s0)) = []) \<and>
     (typeof b = ''object'' \<and> 1 \<le> ticks as \<longrightarrow>
        (\<exists>r. MakeVatEndowments (vatID s0) r \<in> set (calls (run st as s0))))"
proof -
  let ?s0 = "snd (createVatDynamically st b k)"
  note h = run_hist[of st b k as]
  have kinds: "(typeof b \<noteq> ''object'') = (b \<noteq> JNull \<and> (\<forall>ps. b \<noteq> JObject ps))"
    by (cases b) simp_all
  have first: "settled (tick st ?s0) =
          Rejected (Error ''createVatDynamically() requires bundle, not a plain string'') \<and>
        calls (tick st ?s0) = calls ?s0"
    if "typeof b \<noteq> ''object''"
    using that
    by (simp add: tick_def createVatDynamically_def Let_def chain_def makeBuildRootObject_def
        split: prod.splits)
  have never: "filter (\<lambda>ev. is_MakeVatEndowments ev \<or> is_ImportBundle ev \<or>
        is_AddVatManager ev \<or> is_AddExport ev) (calls (run st as ?s0)) = []"
    if "typeof b \<noteq> ''object''"
    using hist_not_object[OF h that] by simp
  have loads: "\<exists>r. MakeVatEndowments (vatID ?s0) r \<in> set (calls (run st as ?s0))"
    if "typeof b = ''object''" "1 \<le> ticks as"
  proof -
    have "remaining (pending (run st as ?s0)) \<le> 5"
      using run_remaining[of st as ?s0] that(2)
      by (simp add: created_fields remaining_def chain_def)
    then have "pending (run st as ?s0) \<noteq> chain"
      by (auto simp: remaining_def chain_def)
    from hist_loading[OF h that(1) this] show ?thesis
      by (simp add: created_fields)
  qed
  from kinds first never loads show ?thesis
    unfolding s0_def by auto
qed

theorem bundle_kind_validation_witness:
  "typeof JNull = ''object'' \<and>
   1 \<le> ticks [Tick :: demo_kernel action] \<and>
   MakeVatEndowments ''v10'' (Inr (JObject []))
     \<in> set (calls (run demo_stuff [Tick] (snd (createVatDynamically demo_stuff JNull demo_kernel0)))) \<and>
   typeof (JNumber 7) \<noteq> ''object'' \<and>
   settled (tick demo_stuff (snd (createVatDynamically demo_stuff (JNumber 7) demo_kernel0))) =
     Rejected (Error ''createVatDynamically() requires bundle, not a plain string'') \<and>
   typeof (JFunction 3) \<noteq> ''object'' \<and>
   typeof JUndefined \<noteq> ''object''"
proof -
  have t: "1 \<le> ticks [Tick :: demo_kernel action]" by code_simp
  have e: "MakeVatEndowments ''v10'' (Inr (JObject []))
     \<in> set (calls (run demo_stuff [Tick]
          (snd (createVatDynamically demo_stuff JNull demo_kernel0))))"
    by code_simp
  have n: "typeof (JNumber 7) \<noteq> ''object''" by simp
  from bundle_kind_validation[where st = demo_stuff and b = "JNumber 7" and k = demo_kernel0
      and as = "[Tick]"] n
  have "settled (tick demo_stuff
      (snd (createVatDynamically demo_stuff (JNumber 7) demo_kernel0))) =
     Rejected (Error ''createVatDynamically() requires bundle, not a plain string'')"
    by blast
  with t e show ?thesis by simp
qed

end
